theory Spec2Isabelle
  imports Main
begin

section \<open>The player service of ym-player-bot\<close>

text \<open>
  A shallow embedding of \<^verbatim>\<open>src/services/player.service.ts\<close>. The class
  \<^verbatim>\<open>PlayerService\<close> keeps four maps keyed by guild id; the objects stored in
  \<^verbatim>\<open>playerStates\<close> are mutable and are captured by reference in the closures that
  \<^verbatim>\<open>setupInfinitePlayback\<close> registers and in the callbacks it hands to
  \<^verbatim>\<open>setTimeout\<close>. The model therefore keeps an explicit store of \<open>PlayerState\<close>
  objects, a store of the \<^verbatim>\<open>isLoadingTrack\<close> variables of the closures, and the list
  of pending timer callbacks, each with the time at which it is due.

  Every handler runs to completion as one step (the source relies on the handlers of one
  guild not interleaving). What an awaited call of a collaborator returns, or whether it
  rejects, is an input of the step (\<open>Env\<close>). Calls into the audio player and edits of the
  embed message are appended to two logs, so that "nothing was played" and "nothing was
  shown" are statements about the state.
\<close>

subsection \<open>Data\<close>

type_synonym guild_id = string
type_synonym player = nat
type_synonym connection = nat
type_synonym ref = nat
type_synonym cell = nat

record ITrackInfo =
  ti_id :: string
  ti_title :: string
  ti_artist :: string
  ti_album :: string
  ti_coverUrl :: "string option"

record IYandexTrack =
  yt_id :: string
  yt_title :: string
  yt_artists :: "string list"
  yt_albums :: "string list"
  yt_coverUri :: string

text \<open>A Discord message: its identity, \<^verbatim>\<open>message.guild?.id\<close> and \<^verbatim>\<open>message.editable\<close>.\<close>

record Message =
  msg_id :: nat
  msg_guild :: "string option"
  msg_editable :: bool

record PlayerState =
  isPlaying :: bool
  currentTrack :: "ITrackInfo option"
  previousTracks :: "IYandexTrack list"
  trackQueue :: "IYandexTrack list"
  accessToken :: string
  userId :: string
  stationId :: string
  embedMessage :: "Message option"
  trackStartTime :: "int option"
  retryCount :: nat
  lastTrackId :: "string option"

text \<open>The result of an awaited promise.\<close>

datatype 'a outcome = Resolves 'a | Rejects

text \<open>
  What the collaborators answer during one step: \<^verbatim>\<open>Date.now()\<close> (one reading of
  the clock serves the whole step), the promises of
  \<^verbatim>\<open>sendTrackStartedFeedback\<close>, \<^verbatim>\<open>getStreamUrl\<close>, \<^verbatim>\<open>getStationTracks\<close> and
  \<^verbatim>\<open>likeTrack\<close>, and the promise of an awaited \<^verbatim>\<open>message.edit\<close> that has no
  \<^verbatim>\<open>.catch\<close> of its own.
\<close>

record Env =
  now :: int
  feedback :: "bool outcome"
  streamUrl :: "string option outcome"
  messageEdit :: "unit outcome"
  stationTracks :: "IYandexTrack list option outcome"
  liked :: "bool outcome"

datatype error_text = StreamUrlFailed string | PlaybackFailed string

datatype notice =
    LoadingEmbed ITrackInfo
  | NowPlaying ITrackInfo
  | ErrorEmbed error_text
  | Controls bool
  | StoppedEmbed
  | Reconnecting ITrackInfo
  | PlaybackProblem string
  | PlaybackFinished

datatype action =
    Play player string
  | Pause player
  | Unpause player
  | Stop player
  | Subscribe connection player
  | Destroy connection

text \<open>The variables a listener of \<^verbatim>\<open>setupInfinitePlayback\<close> closes over.\<close>

record Closure =
  cl_player :: player
  cl_accessToken :: string
  cl_stationId :: string
  cl_embedMessage :: Message
  cl_guildId :: guild_id
  cl_loading :: cell

text \<open>
  The callbacks given to \<^verbatim>\<open>setTimeout\<close>: the one of the error listener and the one of
  the idle listener's retry branch hold the \<open>PlayerState\<close> object the listener had looked
  up; the two that clear \<^verbatim>\<open>isLoadingTrack\<close> and emit \<^verbatim>\<open>Idle\<close> again are the same
  code.
\<close>

datatype callback =
    ErrorRetry Closure ref
  | IdleRetry Closure ref
  | Reemit Closure

record Service =
  trackToTrackInfo :: "IYandexTrack \<Rightarrow> ITrackInfo"
  players :: "guild_id \<rightharpoonup> player"
  connections :: "guild_id \<rightharpoonup> connection"
  playerStates :: "guild_id \<rightharpoonup> ref"
  currentResources :: "guild_id \<rightharpoonup> string"
  store :: "ref \<Rightarrow> PlayerState"
  loading :: "cell \<Rightarrow> bool"
  fresh :: nat
  listeners :: "player \<rightharpoonup> Closure"
  timers :: "(int \<times> callback) list"
  transport :: "action list"
  presentation :: "(nat \<times> notice) list"

subsection \<open>Helpers\<close>

text \<open>\<^verbatim>\<open>s.replace(pat, rep)\<close> with a string pattern: the first occurrence only.\<close>

fun replace_js :: "string \<Rightarrow> string \<Rightarrow> string \<Rightarrow> string" where
  "replace_js pat rep [] = (if pat = [] then rep else [])"
| "replace_js pat rep (c # cs) =
     (if take (length pat) (c # cs) = pat then rep @ drop (length pat) (c # cs)
      else c # replace_js pat rep cs)"

text \<open>The object literal \<^verbatim>\<open>currentTrackAsYandexTrack\<close> of \<^verbatim>\<open>handlePrevious\<close> and \<^verbatim>\<open>playTrack\<close>.\<close>

definition asYandexTrack :: "ITrackInfo \<Rightarrow> IYandexTrack" where
  "asYandexTrack t =
     \<lparr>yt_id = ti_id t, yt_title = ti_title t, yt_artists = [ti_artist t],
      yt_albums = [ti_album t],
      yt_coverUri = (case ti_coverUrl t of None \<Rightarrow> []
         | Some u \<Rightarrow> replace_js ''400x400'' ''%%'' (replace_js ''https://'' [] u))\<rparr>"

text \<open>\<^verbatim>\<open>embedMessage?.guild?.id\<close>, and the same under \<^verbatim>\<open>if (guildId)\<close>.\<close>

definition rawGuild :: "Message option \<Rightarrow> string option" where
  "rawGuild m = (case m of None \<Rightarrow> None | Some x \<Rightarrow> msg_guild x)"

definition truthyGuild :: "Message option \<Rightarrow> string option" where
  "truthyGuild m = (case rawGuild m of None \<Rightarrow> None | Some g \<Rightarrow> if g = [] then None else Some g)"

definition notify :: "Message \<Rightarrow> notice \<Rightarrow> Service \<Rightarrow> Service" where
  "notify m n s = s\<lparr>presentation := presentation s @ [(msg_id m, n)]\<rparr>"

definition notifyOpt :: "Message option \<Rightarrow> notice \<Rightarrow> Service \<Rightarrow> Service" where
  "notifyOpt m n s = (case m of None \<Rightarrow> s | Some x \<Rightarrow> notify x n s)"

definition act :: "action \<Rightarrow> Service \<Rightarrow> Service" where
  "act a s = s\<lparr>transport := transport s @ [a]\<rparr>"

definition modify :: "ref \<Rightarrow> (PlayerState \<Rightarrow> PlayerState) \<Rightarrow> Service \<Rightarrow> Service" where
  "modify r f s = s\<lparr>store := (store s)(r := f (store s r))\<rparr>"

subsection \<open>playTrack\<close>

text \<open>
  Lines 604-620: the current track, when there is one, goes to the end of the history;
  when the history holds ten entries or more, its first entry is removed before.
\<close>

definition pushHistory :: "PlayerState \<Rightarrow> PlayerState" where
  "pushHistory ps =
     (case currentTrack ps of None \<Rightarrow> ps
      | Some cur \<Rightarrow>
          ps\<lparr>previousTracks :=
               (if length (previousTracks ps) \<ge> 10 then tl (previousTracks ps)
                else previousTracks ps) @ [asYandexTrack cur]\<rparr>)"

text \<open>The \<^verbatim>\<open>catch\<close> block of \<^verbatim>\<open>playTrack\<close>.\<close>

definition playTrackCatch :: "ITrackInfo \<Rightarrow> Message option \<Rightarrow> Service \<Rightarrow> bool \<times> Service" where
  "playTrackCatch trackInfo m s =
     (False, notifyOpt m (ErrorEmbed (PlaybackFailed (ti_title trackInfo))) s)"

text \<open>Lines 641-652, after \<^verbatim>\<open>player.play\<close>: the start time, the last id, the retry count.\<close>

definition markStarted :: "ITrackInfo \<Rightarrow> int \<Rightarrow> PlayerState \<Rightarrow> PlayerState" where
  "markStarted trackInfo t ps =
     ps\<lparr>trackStartTime := Some t,
        lastTrackId := (if ti_id trackInfo \<noteq> [] then Some (ti_id trackInfo) else None),
        retryCount := 0\<rparr>"

text \<open>Lines 634-654.\<close>

definition playTrackFinish ::
  "player \<Rightarrow> ITrackInfo \<Rightarrow> Message option \<Rightarrow> string \<Rightarrow> Env \<Rightarrow> Service \<Rightarrow> bool \<times> Service" where
  "playTrackFinish p trackInfo m resource env s =
     (let s1 = act (Play p resource) s;
          s2 = notifyOpt m (NowPlaying trackInfo) s1;
          s3 = (case rawGuild m of None \<Rightarrow> s2
                | Some g \<Rightarrow> (case playerStates s2 g of None \<Rightarrow> s2
                    | Some r \<Rightarrow> modify r (markStarted trackInfo (now env)) s2))
      in (True, s3))"

definition playTrack ::
  "player \<Rightarrow> ITrackInfo \<Rightarrow> string \<Rightarrow> string \<Rightarrow> Message option \<Rightarrow> Env \<Rightarrow> Service \<Rightarrow> bool \<times> Service" where
  "playTrack p trackInfo token station m env s =
     (let s1 = notifyOpt m (LoadingEmbed trackInfo) s in
      case feedback env of
        Rejects \<Rightarrow> playTrackCatch trackInfo m s1
      | Resolves _ \<Rightarrow>
         (case streamUrl env of
            Rejects \<Rightarrow> playTrackCatch trackInfo m s1
          | Resolves None \<Rightarrow>
              (False, notifyOpt m (ErrorEmbed (StreamUrlFailed (ti_title trackInfo))) s1)
          | Resolves (Some url) \<Rightarrow>
              if url = [] then
                (False, notifyOpt m (ErrorEmbed (StreamUrlFailed (ti_title trackInfo))) s1)
              else
                (case truthyGuild m of
                   None \<Rightarrow> playTrackFinish p trackInfo m url env s1
                 | Some g \<Rightarrow>
                    (let s2 = s1\<lparr>currentResources := (currentResources s1)(g \<mapsto> url)\<rparr> in
                     case playerStates s2 g of
                       None \<Rightarrow> playTrackFinish p trackInfo m url env s2
                     | Some r \<Rightarrow>
                        (let s3 = modify r (\<lambda>ps. (pushHistory ps)
                                     \<lparr>currentTrack := Some trackInfo, isPlaying := True\<rparr>) s2
                         in case embedMessage (store s3 r) of
                              None \<Rightarrow> playTrackFinish p trackInfo m url env s3
                            | Some em \<Rightarrow>
                               if msg_editable em then
                                 (case messageEdit env of
                                    Rejects \<Rightarrow> playTrackCatch trackInfo m s3
                                  | Resolves _ \<Rightarrow>
                                      playTrackFinish p trackInfo m url env
                                        (notify em (Controls True) s3))
                               else playTrackFinish p trackInfo m url env s3)))))"

subsection \<open>createPlayer\<close>

record PlayerOptions =
  opt_guildId :: guild_id
  opt_voiceChannel :: string
  opt_accessToken :: string
  opt_userId :: string
  opt_stationId :: string

datatype create_error = ConnectFailed | SendFailed

text \<open>Lines 152-164: the state a new player starts with.\<close>

definition initialState :: "string \<Rightarrow> string \<Rightarrow> string \<Rightarrow> Message option \<Rightarrow> PlayerState" where
  "initialState token user station m =
     \<lparr>isPlaying = False, currentTrack = None, previousTracks = [], trackQueue = [],
      accessToken = token, userId = user, stationId = station, embedMessage = m,
      trackStartTime = None, retryCount = 0, lastTrackId = None\<rparr>"

text \<open>Deleting the guild's entry from the four maps (lines 116-119 and 444-447).\<close>

definition forget :: "guild_id \<Rightarrow> Service \<Rightarrow> Service" where
  "forget g s =
     s\<lparr>players := (players s)(g := None),
       connections := (connections s)(g := None),
       playerStates := (playerStates s)(g := None),
       currentResources := (currentResources s)(g := None)\<rparr>"

text \<open>
  \<open>joined\<close> is the connection that \<^verbatim>\<open>joinVoiceChannel\<close> returned. The voice library
  decides which one that is (for a guild it already holds a connection for, it hands out
  that connection again), so the connection is an input here and not a new object.
  \<open>ready\<close> says whether it entered \<^verbatim>\<open>Ready\<close> within five seconds; \<open>sent\<close> is
  what \<^verbatim>\<open>interaction.channel.send\<close> gave: no message when the channel cannot send, the
  message otherwise, or a rejection. The player made by \<^verbatim>\<open>createAudioPlayer\<close> and the
  new state object take the next free number. The function throws when the connection
  does not get ready or the send rejects; it reads none of the maps before it writes
  them.
\<close>

definition createPlayer ::
  "PlayerOptions \<Rightarrow> connection \<Rightarrow> bool \<Rightarrow> Message option outcome \<Rightarrow> Service
     \<Rightarrow> (create_error + player \<times> connection \<times> Message option) \<times> Service" where
  "createPlayer options joined ready sent s =
     (let n = fresh s;
          s1 = act (Subscribe joined n) (s\<lparr>fresh := Suc n\<rparr>)
      in if \<not> ready then (Inl ConnectFailed, act (Destroy joined) s1)
         else (case sent of
                 Rejects \<Rightarrow> (Inl SendFailed, s1)
               | Resolves m \<Rightarrow>
                   (Inr (n, joined, m),
                    s1\<lparr>players := (players s1)(opt_guildId options \<mapsto> n),
                       connections := (connections s1)(opt_guildId options \<mapsto> joined),
                       playerStates := (playerStates s1)(opt_guildId options \<mapsto> n),
                       store := (store s1)(n := initialState (opt_accessToken options)
                                  (opt_userId options) (opt_stationId options) m)\<rparr>)))"

text \<open>
  The listener of \<^verbatim>\<open>VoiceConnectionStatus.Disconnected\<close> (lines 106-121); \<open>recovers\<close>
  says whether the connection went back to signalling or connecting in time.
\<close>

definition onDisconnected :: "guild_id \<Rightarrow> connection \<Rightarrow> bool \<Rightarrow> Service \<Rightarrow> Service" where
  "onDisconnected g c recovers s = (if recovers then s else forget g (act (Destroy c) s))"

subsection \<open>setupInfinitePlayback\<close>

definition setLoading :: "Closure \<Rightarrow> bool \<Rightarrow> Service \<Rightarrow> Service" where
  "setLoading c b s = s\<lparr>loading := (loading s)(cl_loading c := b)\<rparr>"

text \<open>
  \<^verbatim>\<open>setTimeout(cb, ms)\<close>: the callback is kept with the time at which it is due.
\<close>

definition schedule :: "int \<Rightarrow> callback \<Rightarrow> Env \<Rightarrow> Service \<Rightarrow> Service" where
  "schedule ms cb env s = s\<lparr>timers := timers s @ [(now env + ms, cb)]\<rparr>"

text \<open>\<^verbatim>\<open>loadMoreTracks\<close> (lines 684-701).\<close>

definition loadMoreTracks :: "Closure \<Rightarrow> Env \<Rightarrow> Service \<Rightarrow> bool \<times> Service" where
  "loadMoreTracks c env s =
     (case stationTracks env of
        Rejects \<Rightarrow> (False, s)
      | Resolves newTracks \<Rightarrow>
         (case playerStates s (cl_guildId c) of
            None \<Rightarrow> (False, s)
          | Some r \<Rightarrow>
             (case newTracks of
                None \<Rightarrow> (False, s)
              | Some ts \<Rightarrow>
                  if length ts > 0
                  then (True, modify r (\<lambda>ps. ps\<lparr>trackQueue := trackQueue ps @ ts\<rparr>) s)
                  else (False, s))))"

text \<open>The listener of \<^verbatim>\<open>'error'\<close> (lines 718-755), up to the timer it sets.\<close>

definition onError :: "Closure \<Rightarrow> Env \<Rightarrow> Service \<Rightarrow> Service" where
  "onError c env s =
     (case playerStates s (cl_guildId c) of
        None \<Rightarrow> s
      | Some r \<Rightarrow>
         (case currentTrack (store s r) of
            None \<Rightarrow> s
          | Some t \<Rightarrow>
              schedule 3000 (ErrorRetry c r) env
                (notify (cl_embedMessage c) (PlaybackProblem (ti_title t)) s)))"

text \<open>Lines 712 and 715.\<close>

abbreviation MIN_PLAY_TIME :: int where
  "MIN_PLAY_TIME \<equiv> 10000"

abbreviation MAX_RETRY_COUNT :: nat where
  "MAX_RETRY_COUNT \<equiv> 3"

text \<open>Line 770: \<^verbatim>\<open>playerState.trackStartTime ? currentTime - playerState.trackStartTime : 0\<close>.\<close>

definition playTime :: "Env \<Rightarrow> PlayerState \<Rightarrow> int" where
  "playTime env ps =
     (case trackStartTime ps of None \<Rightarrow> 0 | Some t \<Rightarrow> if t = 0 then 0 else now env - t)"

text \<open>Lines 775-808: the retry of an interrupted track.\<close>

definition retryBranch :: "Closure \<Rightarrow> ref \<Rightarrow> Env \<Rightarrow> Service \<Rightarrow> Service" where
  "retryBranch c r env s =
     (let s1 = (case currentTrack (store s r) of
                  None \<Rightarrow> s
                | Some t \<Rightarrow> notify (cl_embedMessage c) (Reconnecting t) s);
          s2 = modify r (\<lambda>ps. ps\<lparr>retryCount := retryCount ps + 1\<rparr>) s1
      in schedule 3000 (IdleRetry c r) env s2)"

text \<open>Lines 816-846: the next track of the queue.\<close>

definition advanceBranch :: "Closure \<Rightarrow> ref \<Rightarrow> Env \<Rightarrow> Service \<Rightarrow> Service" where
  "advanceBranch c r env s =
     (let s1 = setLoading c True s in
      case trackQueue (store s1 r) of
        [] \<Rightarrow> setLoading c False s1
      | nextTrack # rest \<Rightarrow>
         (let s2 = modify r (\<lambda>ps. ps\<lparr>trackQueue := rest\<rparr>) s1;
              res = playTrack (cl_player c) (trackToTrackInfo s2 nextTrack) (cl_accessToken c)
                      (cl_stationId c) (Some (cl_embedMessage c)) env s2
          in if \<not> fst res then schedule 3000 (Reemit c) env (snd res)
             else setLoading c False (snd res)))"

text \<open>Lines 847-881: the queue is empty.\<close>

definition refillBranch :: "Closure \<Rightarrow> Env \<Rightarrow> Service \<Rightarrow> Service" where
  "refillBranch c env s =
     (let res = loadMoreTracks c env (setLoading c True s)
      in if fst res then schedule 1000 (Reemit c) env (snd res)
         else setLoading c False (notify (cl_embedMessage c) PlaybackFinished (snd res)))"

text \<open>The listener of \<^verbatim>\<open>AudioPlayerStatus.Idle\<close> (lines 758-882).\<close>

definition onIdle :: "Closure \<Rightarrow> Env \<Rightarrow> Service \<Rightarrow> Service" where
  "onIdle c env s =
     (case playerStates s (cl_guildId c) of
        None \<Rightarrow> s
      | Some r \<Rightarrow>
          if loading s (cl_loading c) then s
          else if playTime env (store s r) < MIN_PLAY_TIME \<and> currentTrack (store s r) \<noteq> None
                  \<and> retryCount (store s r) < MAX_RETRY_COUNT
               then retryBranch c r env s
          else if length (trackQueue (store s r)) > 0 then advanceBranch c r env s
          else refillBranch c env s)"

text \<open>\<^verbatim>\<open>player.emit(AudioPlayerStatus.Idle)\<close> and \<^verbatim>\<open>player.emit('error')\<close>.\<close>

definition emitIdle :: "player \<Rightarrow> Env \<Rightarrow> Service \<Rightarrow> Service" where
  "emitIdle p env s = (case listeners s p of None \<Rightarrow> s | Some c \<Rightarrow> onIdle c env s)"

definition emitError :: "player \<Rightarrow> Env \<Rightarrow> Service \<Rightarrow> Service" where
  "emitError p env s = (case listeners s p of None \<Rightarrow> s | Some c \<Rightarrow> onError c env s)"

text \<open>
  The body of \<^verbatim>\<open>setupInfinitePlayback\<close> (lines 674-715): the queue of the guild's
  state is replaced, the old listeners are removed, a new \<^verbatim>\<open>isLoadingTrack\<close> is made
  and the two listeners that share it are registered.
\<close>

definition setupInfinitePlayback ::
  "player \<Rightarrow> string \<Rightarrow> string \<Rightarrow> Message option \<Rightarrow> IYandexTrack list \<Rightarrow> Service \<Rightarrow> Service" where
  "setupInfinitePlayback p token station m initialTracks s =
     (case m of
        None \<Rightarrow> s
      | Some em \<Rightarrow>
         (case truthyGuild m of
            None \<Rightarrow> s
          | Some g \<Rightarrow>
             (let s1 = (case playerStates s g of
                          None \<Rightarrow> s
                        | Some r \<Rightarrow> modify r (\<lambda>ps. ps\<lparr>trackQueue := initialTracks\<rparr>) s);
                  c = \<lparr>cl_player = p, cl_accessToken = token, cl_stationId = station,
                       cl_embedMessage = em, cl_guildId = g, cl_loading = fresh s1\<rparr>
              in s1\<lparr>loading := (loading s1)(fresh s1 := False),
                    fresh := Suc (fresh s1),
                    listeners := (listeners s1)(p \<mapsto> c)\<rparr>)))"

subsection \<open>Timers\<close>

text \<open>Lines 832-835 and 857-860.\<close>

definition reemit :: "Closure \<Rightarrow> Env \<Rightarrow> Service \<Rightarrow> Service" where
  "reemit c env s = emitIdle (cl_player c) env (setLoading c False s)"

text \<open>The three callbacks (lines 741-754, 802-806, 832-835 and 857-860).\<close>

fun run :: "callback \<Rightarrow> Env \<Rightarrow> Service \<Rightarrow> Service" where
  "run (ErrorRetry c r) env s =
     (case currentTrack (store s r) of
        None \<Rightarrow> reemit c env s
      | Some t \<Rightarrow>
          if retryCount (store s r) < MAX_RETRY_COUNT
          then snd (playTrack (cl_player c) t (cl_accessToken c) (cl_stationId c)
                      (Some (cl_embedMessage c)) env
                      (modify r (\<lambda>ps. ps\<lparr>retryCount := retryCount ps + 1\<rparr>) s))
          else reemit c env s)"
| "run (IdleRetry c r) env s =
     (case currentTrack (store s r) of
        None \<Rightarrow> s
      | Some t \<Rightarrow> snd (playTrack (cl_player c) t (cl_accessToken c) (cl_stationId c)
                         (Some (cl_embedMessage c)) env s))"
| "run (Reemit c) env s = reemit c env s"

text \<open>
  The \<open>i\<close>-th pending timer can expire when its time has come and no other pending
  timer comes before it: none that is due earlier, and none that is due at the same time
  and was set before.
\<close>

definition expiring :: "nat \<Rightarrow> Env \<Rightarrow> Service \<Rightarrow> bool" where
  "expiring i env s =
     (i < length (timers s) \<and> fst (timers s ! i) \<le> now env \<and>
      list_all (\<lambda>x. fst (timers s ! i) < fst x) (take i (timers s)) \<and>
      list_all (\<lambda>x. fst (timers s ! i) \<le> fst x) (drop (Suc i) (timers s)))"

text \<open>The timer leaves the list and its callback runs.\<close>

definition fire :: "nat \<Rightarrow> Env \<Rightarrow> Service \<Rightarrow> Service" where
  "fire i env s =
     (if expiring i env s
      then run (snd (timers s ! i)) env (s\<lparr>timers := take i (timers s) @ drop (Suc i) (timers s)\<rparr>)
      else s)"

subsection \<open>The button handlers\<close>

text \<open>The content of \<^verbatim>\<open>interaction.reply\<close>.\<close>

datatype reply =
    PlayerNotFound
  | NoTrackToLike
  | LikedReply string
  | LikeFailed
  | LikeError
  | NoPreviousTracks
  | PlayingPrevious
  | PausedReply
  | PauseError
  | ResumedReply
  | ResumeError
  | StoppedReply
  | StopError
  | NextReply

definition handleLike :: "guild_id \<Rightarrow> Env \<Rightarrow> Service \<Rightarrow> reply \<times> Service" where
  "handleLike g env s =
     (case playerStates s g of
        None \<Rightarrow> (NoTrackToLike, s)
      | Some r \<Rightarrow>
         (case currentTrack (store s r) of
            None \<Rightarrow> (NoTrackToLike, s)
          | Some t \<Rightarrow>
             (case liked env of
                Rejects \<Rightarrow> (LikeError, s)
              | Resolves success \<Rightarrow>
                  (if success then LikedReply (ti_title t) else LikeFailed, s))))"

text \<open>
  \<^verbatim>\<open>handlePrevious\<close> (lines 284-344). \<^verbatim>\<open>playTrack\<close> catches its own exceptions and
  its result is not looked at, so the reply after it is always the same.
\<close>

definition handlePrevious :: "guild_id \<Rightarrow> Env \<Rightarrow> Service \<Rightarrow> reply \<times> Service" where
  "handlePrevious g env s =
     (case playerStates s g of
        None \<Rightarrow> (PlayerNotFound, s)
      | Some r \<Rightarrow>
         (case players s g of
            None \<Rightarrow> (PlayerNotFound, s)
          | Some p \<Rightarrow>
              if length (previousTracks (store s r)) = 0 then (NoPreviousTracks, s)
              else
                (let previousTrack = last (previousTracks (store s r));
                     s1 = modify r (\<lambda>ps. ps\<lparr>previousTracks := butlast (previousTracks ps)\<rparr>) s;
                     s2 = (case currentTrack (store s1 r) of
                             None \<Rightarrow> s1
                           | Some cur \<Rightarrow>
                               modify r (\<lambda>ps. ps\<lparr>trackQueue := asYandexTrack cur # trackQueue ps\<rparr>) s1);
                     ps = store s2 r
                 in (PlayingPrevious,
                     snd (playTrack p (trackToTrackInfo s2 previousTrack) (accessToken ps)
                            (stationId ps) (embedMessage ps) env s2)))))"

text \<open>Lines 365-369 and 403-407: the buttons are redrawn, and the edit is awaited.\<close>

definition redraw :: "bool \<Rightarrow> ref \<Rightarrow> Env \<Rightarrow> Service \<Rightarrow> Service option" where
  "redraw playing r env s =
     (case embedMessage (store s r) of
        None \<Rightarrow> Some s
      | Some em \<Rightarrow>
          if msg_editable em then
            (case messageEdit env of
               Rejects \<Rightarrow> None
             | Resolves _ \<Rightarrow> Some (notify em (Controls playing) s))
          else Some s)"

definition handlePause :: "guild_id \<Rightarrow> Env \<Rightarrow> Service \<Rightarrow> reply \<times> Service" where
  "handlePause g env s =
     (case players s g of
        None \<Rightarrow> (PlayerNotFound, s)
      | Some p \<Rightarrow>
         (case playerStates s g of
            None \<Rightarrow> (PlayerNotFound, s)
          | Some r \<Rightarrow>
             (let s1 = modify r (\<lambda>ps. ps\<lparr>isPlaying := False\<rparr>) (act (Pause p) s)
              in case redraw False r env s1 of
                   None \<Rightarrow> (PauseError, s1)
                 | Some s2 \<Rightarrow> (PausedReply, s2))))"

definition handlePlay :: "guild_id \<Rightarrow> Env \<Rightarrow> Service \<Rightarrow> reply \<times> Service" where
  "handlePlay g env s =
     (case players s g of
        None \<Rightarrow> (PlayerNotFound, s)
      | Some p \<Rightarrow>
         (case playerStates s g of
            None \<Rightarrow> (PlayerNotFound, s)
          | Some r \<Rightarrow>
             (let s1 = modify r (\<lambda>ps. ps\<lparr>isPlaying := True\<rparr>) (act (Unpause p) s)
              in case redraw True r env s1 of
                   None \<Rightarrow> (ResumeError, s1)
                 | Some s2 \<Rightarrow> (ResumedReply, s2))))"

text \<open>
  \<^verbatim>\<open>handleStop\<close> (lines 425-472): the player is stopped, the connection destroyed and
  the guild's entries deleted. Neither the listeners of the player nor the pending timers
  are touched; the source has no \<^verbatim>\<open>clearTimeout\<close>.
\<close>

definition handleStop :: "guild_id \<Rightarrow> Env \<Rightarrow> Service \<Rightarrow> reply \<times> Service" where
  "handleStop g env s =
     (case players s g of
        None \<Rightarrow> (PlayerNotFound, s)
      | Some p \<Rightarrow>
         (case connections s g of
            None \<Rightarrow> (PlayerNotFound, s)
          | Some c \<Rightarrow>
             (case playerStates s g of
                None \<Rightarrow> (PlayerNotFound, s)
              | Some r \<Rightarrow>
                 (let s1 = forget g (act (Destroy c) (act (Stop p) s))
                  in case embedMessage (store s1 r) of
                       None \<Rightarrow> (StoppedReply, s1)
                     | Some em \<Rightarrow>
                         if msg_editable em then
                           (case messageEdit env of
                              Rejects \<Rightarrow> (StopError, s1)
                            | Resolves _ \<Rightarrow> (StoppedReply, notify em StoppedEmbed s1))
                         else (StoppedReply, s1)))))"

definition handleNext :: "guild_id \<Rightarrow> Env \<Rightarrow> Service \<Rightarrow> reply \<times> Service" where
  "handleNext g env s =
     (case players s g of
        None \<Rightarrow> (PlayerNotFound, s)
      | Some p \<Rightarrow>
         (case playerStates s g of
            None \<Rightarrow> (PlayerNotFound, s)
          | Some r \<Rightarrow> (NextReply, emitIdle p env s)))"

text \<open>
  The \<^verbatim>\<open>collect\<close> listener of \<^verbatim>\<open>setupButtonHandler\<close> (lines 196-230), for the guild
  the collector was made for; a button id outside the \<^verbatim>\<open>switch\<close> gets no reply.
\<close>

definition collect :: "guild_id \<Rightarrow> string \<Rightarrow> Env \<Rightarrow> Service \<Rightarrow> reply option \<times> Service" where
  "collect g customId env s =
     (let answer = (\<lambda>res. (Some (fst res), snd res)) in
      if players s g = None \<or> playerStates s g = None then (Some PlayerNotFound, s)
      else if customId = ''like'' then answer (handleLike g env s)
      else if customId = ''previous'' then answer (handlePrevious g env s)
      else if customId = ''pause'' then answer (handlePause g env s)
      else if customId = ''play'' then answer (handlePlay g env s)
      else if customId = ''stop'' then answer (handleStop g env s)
      else if customId = ''next'' then answer (handleNext g env s)
      else (None, s))"

subsection \<open>The service as a transition system\<close>

text \<open>
  What can happen to the service: a call of one of its public methods, a click on a
  button, an event of a player, an expiring timer, a lost connection.
\<close>

datatype event =
    EvCreate PlayerOptions connection bool "Message option outcome"
  | EvSetup player string string "Message option" "IYandexTrack list"
  | EvPlayTrack player ITrackInfo string string "Message option"
  | EvCollect guild_id string
  | EvIdle player
  | EvError player
  | EvTimeout nat
  | EvDisconnected guild_id connection bool

fun step :: "event \<Rightarrow> Env \<Rightarrow> Service \<Rightarrow> Service" where
  "step (EvCreate options joined ready sent) env s =
     snd (createPlayer options joined ready sent s)"
| "step (EvSetup p token station m initialTracks) env s =
     setupInfinitePlayback p token station m initialTracks s"
| "step (EvPlayTrack p trackInfo token station m) env s =
     snd (playTrack p trackInfo token station m env s)"
| "step (EvCollect g customId) env s = snd (collect g customId env s)"
| "step (EvIdle p) env s = emitIdle p env s"
| "step (EvError p) env s = emitError p env s"
| "step (EvTimeout i) env s = fire i env s"
| "step (EvDisconnected g c recovers) env s = onDisconnected g c recovers s"

text \<open>The service after the constructor: empty maps, no object allocated, nothing pending.\<close>

definition newService :: "(IYandexTrack \<Rightarrow> ITrackInfo) \<Rightarrow> Service" where
  "newService conv =
     \<lparr>trackToTrackInfo = conv, players = Map.empty, connections = Map.empty,
      playerStates = Map.empty, currentResources = Map.empty,
      store = (\<lambda>_. initialState [] [] [] None), loading = (\<lambda>_. False), fresh = 0,
      listeners = Map.empty, timers = [], transport = [], presentation = []\<rparr>"

inductive reachable :: "Service \<Rightarrow> bool" where
  reach_new: "reachable (newService conv)"
| reach_step: "reachable s \<Longrightarrow> reachable (step e env s)"

fun steps :: "(event \<times> Env) list \<Rightarrow> Service \<Rightarrow> Service" where
  "steps [] s = s"
| "steps (x # xs) s = steps xs (step (fst x) (snd x) s)"

subsection \<open>An example session\<close>

text \<open>
  \<^verbatim>\<open>trackToTrackInfo\<close> belongs to \<^verbatim>\<open>YandexMusicService\<close>, whose source is not part
  of the files at hand; the service carries it as a field and the theorems hold for any
  function there. The examples use the converter below, tracks named by one string, one
  guild, its message, and three answers of the collaborators.
\<close>

definition sampleConv :: "IYandexTrack \<Rightarrow> ITrackInfo" where
  "sampleConv y = \<lparr>ti_id = yt_id y, ti_title = yt_title y, ti_artist = concat (yt_artists y),
                   ti_album = concat (yt_albums y), ti_coverUrl = None\<rparr>"

definition track :: "string \<Rightarrow> IYandexTrack" where
  "track n = \<lparr>yt_id = n, yt_title = n, yt_artists = [''x''], yt_albums = [''y''], yt_coverUri = []\<rparr>"

definition msgA :: Message where
  "msgA = \<lparr>msg_id = 7, msg_guild = Some ''guild-1'', msg_editable = True\<rparr>"

definition optsA :: PlayerOptions where
  "optsA = \<lparr>opt_guildId = ''guild-1'', opt_voiceChannel = ''voice'', opt_accessToken = ''token'',
            opt_userId = ''user'', opt_stationId = ''station''\<rparr>"

definition envOk :: "int \<Rightarrow> Env" where
  "envOk t = \<lparr>now = t, feedback = Resolves True, streamUrl = Resolves (Some ''url''),
              messageEdit = Resolves (), stationTracks = Resolves None, liked = Resolves True\<rparr>"

definition envNoUrl :: "int \<Rightarrow> Env" where
  "envNoUrl t = \<lparr>now = t, feedback = Resolves True, streamUrl = Resolves None,
              messageEdit = Resolves (), stationTracks = Resolves None, liked = Resolves True\<rparr>"

definition envFeedbackFails :: "int \<Rightarrow> Env" where
  "envFeedbackFails t = \<lparr>now = t, feedback = Rejects, streamUrl = Resolves (Some ''url''),
              messageEdit = Resolves (), stationTracks = Resolves None, liked = Resolves True\<rparr>"

text \<open>
  A player is created for the guild on connection 0, playback is set up with the queue
  C, A, B, and the first idle event starts C at time 1000.
\<close>

definition started :: Service where
  "started = steps [(EvCreate optsA 0 True (Resolves (Some msgA)), envOk 0),
                    (EvSetup 0 ''token'' ''station'' (Some msgA) [track ''C'', track ''A'', track ''B''], envOk 0),
                    (EvIdle 0, envOk 1000)] (newService sampleConv)"


text \<open>
  The closure of the listeners that the second step registers, and the states the
  examples below start from: after a natural end of C that starts A (\<open>advanced\<close>);
  after an advance whose start failed, with the re-emit timer pending (\<open>stalled\<close>);
  the same after A had started, followed by a click on "previous" (\<open>waiting\<close>); after
  three interruptions of C whose restarts all failed (\<open>failing\<close>) or all succeeded
  (\<open>restarted\<close>); after three error events, an advance whose start failed and the
  three retries of the error listener, failed too, with the re-emit timer still pending
  (\<open>exhausted\<close>); after one interruption of C (\<open>retrying\<close>), and
  then a click on "stop" (\<open>stopped\<close>).
\<close>

definition clA :: Closure where
  "clA = \<lparr>cl_player = 0, cl_accessToken = ''token'', cl_stationId = ''station'',
           cl_embedMessage = msgA, cl_guildId = ''guild-1'', cl_loading = 1\<rparr>"

definition advanced :: Service where
  "advanced = steps [(EvIdle 0, envOk 20000)] started"

definition stalled :: Service where
  "stalled = steps [(EvIdle 0, envNoUrl 20000)] started"

definition waiting :: Service where
  "waiting = steps [(EvIdle 0, envOk 20000), (EvIdle 0, envNoUrl 40000),
                    (EvCollect ''guild-1'' ''previous'', envOk 40100)] started"




definition retrying :: Service where
  "retrying = steps [(EvIdle 0, envOk 1100)] started"

definition stopped :: Service where
  "stopped = steps [(EvCollect ''guild-1'' ''stop'', envOk 1200)] retrying"

text \<open>
  Ten further tracks are started one after the other through the public \<open>playTrack\<close>;
  the history then holds ten entries.
\<close>

definition full :: Service where
  "full = steps (map (\<lambda>n. (EvPlayTrack 0 (sampleConv (track n)) ''token'' ''station'' (Some msgA),
                           envOk 2000))
                  [''D'', ''E'', ''F'', ''G'', ''H'', ''I'', ''J'', ''K'', ''L'', ''M'']) started"

subsection \<open>The bound on the history\<close>

definition historyBounded :: "Service \<Rightarrow> bool" where
  "historyBounded s = (\<forall>r. length (previousTracks (store s r)) \<le> 10)"

section \<open>Properties\<close>

lemmas service_defs =
  newService_def createPlayer_def setupInfinitePlayback_def emitIdle_def emitError_def onIdle_def
  onError_def fire_def expiring_def reemit_def playTrack_def playTrackFinish_def playTrackCatch_def
  advanceBranch_def retryBranch_def refillBranch_def loadMoreTracks_def playTime_def
  schedule_def setLoading_def modify_def act_def notify_def notifyOpt_def truthyGuild_def
  rawGuild_def pushHistory_def markStarted_def initialState_def forget_def collect_def
  handleStop_def handlePrevious_def handleNext_def handlePause_def handlePlay_def handleLike_def
  redraw_def onDisconnected_def

lemmas sample_defs =
  started_def envOk_def envNoUrl_def msgA_def optsA_def track_def sampleConv_def
  asYandexTrack_def clA_def

subsection \<open>What the helpers leave alone\<close>

lemma notify_fields [simp]:
  "store (notify m n s) = store s" "playerStates (notify m n s) = playerStates s"
  "players (notify m n s) = players s" "transport (notify m n s) = transport s"
  "timers (notify m n s) = timers s" "loading (notify m n s) = loading s"
  "listeners (notify m n s) = listeners s" "trackToTrackInfo (notify m n s) = trackToTrackInfo s"
  "connections (notify m n s) = connections s" "currentResources (notify m n s) = currentResources s"
  by (simp_all add: notify_def)

lemma notifyOpt_fields [simp]:
  "store (notifyOpt m n s) = store s" "playerStates (notifyOpt m n s) = playerStates s"
  "players (notifyOpt m n s) = players s" "transport (notifyOpt m n s) = transport s"
  "timers (notifyOpt m n s) = timers s" "loading (notifyOpt m n s) = loading s"
  "listeners (notifyOpt m n s) = listeners s" "trackToTrackInfo (notifyOpt m n s) = trackToTrackInfo s"
  "connections (notifyOpt m n s) = connections s" "currentResources (notifyOpt m n s) = currentResources s"
  by (simp_all add: notifyOpt_def split: option.splits)

lemma act_fields [simp]:
  "store (act a s) = store s" "playerStates (act a s) = playerStates s"
  "players (act a s) = players s" "transport (act a s) = transport s @ [a]"
  "timers (act a s) = timers s" "loading (act a s) = loading s"
  "listeners (act a s) = listeners s" "trackToTrackInfo (act a s) = trackToTrackInfo s"
  "connections (act a s) = connections s" "currentResources (act a s) = currentResources s"
  by (simp_all add: act_def)

lemma modify_fields [simp]:
  "store (modify r f s) = (store s)(r := f (store s r))" "playerStates (modify r f s) = playerStates s"
  "players (modify r f s) = players s" "transport (modify r f s) = transport s"
  "timers (modify r f s) = timers s" "loading (modify r f s) = loading s"
  "listeners (modify r f s) = listeners s" "trackToTrackInfo (modify r f s) = trackToTrackInfo s"
  "connections (modify r f s) = connections s" "currentResources (modify r f s) = currentResources s"
  by (simp_all add: modify_def)

lemma schedule_fields [simp]:
  "store (schedule d cb env s) = store s" "playerStates (schedule d cb env s) = playerStates s"
  "players (schedule d cb env s) = players s" "transport (schedule d cb env s) = transport s"
  "timers (schedule d cb env s) = timers s @ [(now env + d, cb)]"
  "loading (schedule d cb env s) = loading s" "listeners (schedule d cb env s) = listeners s"
  "trackToTrackInfo (schedule d cb env s) = trackToTrackInfo s"
  "connections (schedule d cb env s) = connections s"
  "currentResources (schedule d cb env s) = currentResources s"
  by (simp_all add: schedule_def)

lemma setLoading_fields [simp]:
  "store (setLoading c b s) = store s" "playerStates (setLoading c b s) = playerStates s"
  "players (setLoading c b s) = players s" "transport (setLoading c b s) = transport s"
  "timers (setLoading c b s) = timers s" "loading (setLoading c b s) = (loading s)(cl_loading c := b)"
  "listeners (setLoading c b s) = listeners s" "trackToTrackInfo (setLoading c b s) = trackToTrackInfo s"
  "connections (setLoading c b s) = connections s" "currentResources (setLoading c b s) = currentResources s"
  by (simp_all add: setLoading_def)

lemma forget_fields [simp]:
  "store (forget g s) = store s" "playerStates (forget g s) = (playerStates s)(g := None)"
  "players (forget g s) = (players s)(g := None)" "transport (forget g s) = transport s"
  "timers (forget g s) = timers s" "loading (forget g s) = loading s"
  "listeners (forget g s) = listeners s" "trackToTrackInfo (forget g s) = trackToTrackInfo s"
  "connections (forget g s) = (connections s)(g := None)"
  "currentResources (forget g s) = (currentResources s)(g := None)"
  by (simp_all add: forget_def)


subsection \<open>The track start procedure\<close>

lemma playTrackFinish_result:
  "fst (playTrackFinish p t m url env s) = True"
  "transport (snd (playTrackFinish p t m url env s)) = transport s @ [Play p url]"
  by (simp_all add: playTrackFinish_def Let_def act_def notifyOpt_def notify_def modify_def
        split: option.splits)

lemma playTrack_started:
  assumes "feedback env = Resolves b" and "streamUrl env = Resolves (Some url)" and "url \<noteq> []"
    and "messageEdit env = Resolves ()"
  shows "fst (playTrack p t token station m env s) = True"
    and "transport (snd (playTrack p t token station m env s)) = transport s @ [Play p url]"
  using assms
  by (simp_all add: playTrack_def Let_def playTrackFinish_result notifyOpt_def notify_def modify_def
        split: option.splits)

lemma playTrackFinish_store:
  "store (snd (playTrackFinish p t m url env s)) =
     (case rawGuild m of None \<Rightarrow> store s
      | Some g \<Rightarrow> (case playerStates s g of None \<Rightarrow> store s
          | Some r \<Rightarrow> (store s)(r := markStarted t (now env) (store s r))))"
  by (simp add: playTrackFinish_def Let_def split: option.splits)

lemma truthy_raw: "truthyGuild m = Some g \<Longrightarrow> rawGuild m = Some g"
  by (simp add: truthyGuild_def split: option.splits if_splits)

lemma playTrack_registered:
  assumes "feedback env = Resolves b" and "streamUrl env = Resolves (Some url)" and "url \<noteq> []"
    and "messageEdit env = Resolves ()"
    and "truthyGuild m = Some g" and "playerStates s g = Some r"
  shows "store (snd (playTrack p t token station m env s)) =
           (store s)(r := markStarted t (now env)
              ((pushHistory (store s r))\<lparr>currentTrack := Some t, isPlaying := True\<rparr>))"
  using assms truthy_raw [OF assms(5)]
  by (simp add: playTrack_def Let_def playTrackFinish_store split: option.splits)


lemma playTrack_unregistered:
  assumes "rawGuild m = Some g" and "playerStates s g = None"
  shows "store (snd (playTrack p t token station m env s)) = store s"
    and "playerStates (snd (playTrack p t token station m env s)) = playerStates s"
  using assms
  by (auto simp add: playTrack_def Let_def playTrackFinish_def playTrackCatch_def truthyGuild_def
        split: option.splits outcome.splits)

text \<open>
  C7. When \<^verbatim>\<open>getStreamUrl\<close> is reached and answers with no location, \<open>playTrack\<close>
  returns \<open>False\<close> and the service is what it was, apart from the embed message: when
  there is one, it has been shown the loading notice and then the stream error. No state
  object, no map, no timer and no call into the player has changed; in particular
  \<open>currentTrack\<close>, \<open>trackQueue\<close>, \<open>previousTracks\<close>, \<open>trackStartTime\<close>,
  \<open>retryCount\<close> and \<open>lastTrackId\<close> of every state are untouched.
\<close>

theorem playTrack_stream_absent:
  assumes "feedback env = Resolves b" and "streamUrl env = Resolves None"
  shows "playTrack p t token station m env s =
           (False, s\<lparr>presentation := presentation s @
              (case m of None \<Rightarrow> []
               | Some x \<Rightarrow> [(msg_id x, LoadingEmbed t),
                            (msg_id x, ErrorEmbed (StreamUrlFailed (ti_title t)))])\<rparr>)"
  using assms by (cases m) (simp_all add: playTrack_def notifyOpt_def notify_def)

theorem playTrack_stream_absent_witness:
  "feedback (envNoUrl 5000) = Resolves True \<and> streamUrl (envNoUrl 5000) = Resolves None \<and>
   fst (playTrack 0 (sampleConv (track ''A'')) ''token'' ''station'' (Some msgA)
          (envNoUrl 5000) started) = False \<and>
   store (snd (playTrack 0 (sampleConv (track ''A'')) ''token'' ''station'' (Some msgA)
          (envNoUrl 5000) started)) = store started \<and>
   presentation (snd (playTrack 0 (sampleConv (track ''A'')) ''token'' ''station'' (Some msgA)
          (envNoUrl 5000) started)) =
     presentation started @ [(7, LoadingEmbed (sampleConv (track ''A''))),
                             (7, ErrorEmbed (StreamUrlFailed ''A''))]"
  using playTrack_stream_absent [of "envNoUrl 5000" True 0 "sampleConv (track ''A'')" "''token''"
          "''station''" "Some msgA" started]
  by (simp add: envNoUrl_def msgA_def sampleConv_def track_def)

text \<open>
  C8, as the source has it. The feedback call is awaited inside the \<^verbatim>\<open>try\<close> block of
  \<open>playTrack\<close> and its value is dropped. Whatever value it resolves with, a report of
  failure too, \<open>playTrack\<close> goes on: with a stream location (and the buttons redrawn) it
  returns \<open>True\<close> and the player is given the stream. When the call rejects,
  \<open>playTrack\<close> shows the playback error and returns \<open>False\<close>, and nothing else has
  happened: the stream location was never asked for.
\<close>

theorem playTrack_awaits_feedback:
  "(feedback env = Resolves b \<and> streamUrl env = Resolves (Some url) \<and> url \<noteq> [] \<and>
      messageEdit env = Resolves () \<longrightarrow>
      fst (playTrack p t token station m env s) = True \<and>
      transport (snd (playTrack p t token station m env s)) = transport s @ [Play p url]) \<and>
   (feedback env = Rejects \<longrightarrow>
      playTrack p t token station m env s =
        (False, s\<lparr>presentation := presentation s @
           (case m of None \<Rightarrow> []
            | Some x \<Rightarrow> [(msg_id x, LoadingEmbed t),
                         (msg_id x, ErrorEmbed (PlaybackFailed (ti_title t)))])\<rparr>))"
proof (intro conjI impI)
  assume "feedback env = Rejects"
  then show "playTrack p t token station m env s =
        (False, s\<lparr>presentation := presentation s @
           (case m of None \<Rightarrow> []
            | Some x \<Rightarrow> [(msg_id x, LoadingEmbed t),
                         (msg_id x, ErrorEmbed (PlaybackFailed (ti_title t)))])\<rparr>)"
    by (cases m) (simp_all add: playTrack_def playTrackCatch_def notifyOpt_def notify_def)
qed (simp_all add: playTrack_started)

theorem playTrack_awaits_feedback_witness:
  "fst (playTrack 0 (sampleConv (track ''A'')) ''token'' ''station'' (Some msgA)
          (envOk 5000\<lparr>feedback := Resolves False\<rparr>) started) = True \<and>
   fst (playTrack 0 (sampleConv (track ''A'')) ''token'' ''station'' (Some msgA)
          (envFeedbackFails 5000) started) = False"
  using playTrack_awaits_feedback [of "envOk 5000\<lparr>feedback := Resolves False\<rparr>" False "''url''" 0
          "sampleConv (track ''A'')" "''token''" "''station''" "Some msgA" started]
        playTrack_awaits_feedback [of "envFeedbackFails 5000" True "''url''" 0
          "sampleConv (track ''A'')" "''token''" "''station''" "Some msgA" started]
  by (simp add: envOk_def envFeedbackFails_def)

text \<open>
  C8 as stated fails: with a feedback call that rejects, the track that would have started
  does not, and the player is not called.
\<close>

theorem feedback_rejects_counterexample:
  "fst (playTrack 0 (sampleConv (track ''A'')) ''token'' ''station'' (Some msgA)
          (envFeedbackFails 5000) started) = False \<and>
   transport (snd (playTrack 0 (sampleConv (track ''A'')) ''token'' ''station'' (Some msgA)
          (envFeedbackFails 5000) started)) = transport started \<and>
   fst (playTrack 0 (sampleConv (track ''A'')) ''token'' ''station'' (Some msgA)
          (envOk 5000) started) = True"
  by (simp add: playTrack_def playTrackCatch_def playTrackFinish_def notifyOpt_def notify_def
        act_def modify_def envFeedbackFails_def envOk_def truthyGuild_def rawGuild_def msgA_def
        Let_def split: option.splits)

subsection \<open>Creating a player\<close>

text \<open>
  C6, as the source has it. \<open>createPlayer\<close> has no "already active" result. Whenever
  the connection gets ready and the message is sent it succeeds, whatever the maps held
  for the guild and whichever connection \<^verbatim>\<open>joinVoiceChannel\<close> returned: the guild's
  entries then point to a new player, to that connection and to a new initial state.
\<close>

theorem createPlayer_replaces:
  "fst (createPlayer options joined True (Resolves m) s) = Inr (fresh s, joined, m) \<and>
   players (snd (createPlayer options joined True (Resolves m) s)) (opt_guildId options)
     = Some (fresh s) \<and>
   connections (snd (createPlayer options joined True (Resolves m) s)) (opt_guildId options)
     = Some joined \<and>
   playerStates (snd (createPlayer options joined True (Resolves m) s)) (opt_guildId options)
     = Some (fresh s) \<and>
   store (snd (createPlayer options joined True (Resolves m) s)) (fresh s) =
     initialState (opt_accessToken options) (opt_userId options) (opt_stationId options) m"
  by (simp add: createPlayer_def Let_def act_def)

text \<open>
  C6 as stated fails: the second of two calls for the same guild, with nothing removed in
  between and the guild's connection 0 handed out again, succeeds like the first: it
  returns a second player on that connection and replaces the state the first call had
  registered.
\<close>

theorem createPlayer_twice_counterexample:
  "fst (createPlayer optsA 0 True (Resolves (Some msgA)) (newService sampleConv))
     = Inr (0, 0, Some msgA) \<and>
   playerStates (snd (createPlayer optsA 0 True (Resolves (Some msgA)) (newService sampleConv)))
     ''guild-1'' = Some 0 \<and>
   fst (createPlayer optsA 0 True (Resolves (Some msgA))
          (snd (createPlayer optsA 0 True (Resolves (Some msgA)) (newService sampleConv))))
     = Inr (1, 0, Some msgA) \<and>
   players (snd (createPlayer optsA 0 True (Resolves (Some msgA))
          (snd (createPlayer optsA 0 True (Resolves (Some msgA)) (newService sampleConv)))))
     ''guild-1'' = Some 1 \<and>
   connections (snd (createPlayer optsA 0 True (Resolves (Some msgA))
          (snd (createPlayer optsA 0 True (Resolves (Some msgA)) (newService sampleConv)))))
     ''guild-1'' = Some 0 \<and>
   playerStates (snd (createPlayer optsA 0 True (Resolves (Some msgA))
          (snd (createPlayer optsA 0 True (Resolves (Some msgA)) (newService sampleConv)))))
     ''guild-1'' = Some 1"
  by (simp add: createPlayer_def newService_def act_def optsA_def Let_def)

subsection \<open>The previous button\<close>

text \<open>
  C9. With a player and a state registered for the guild and an empty history,
  \<open>handlePrevious\<close> answers that there are no previous tracks and leaves the service
  as it was.
\<close>

theorem previous_empty_history:
  assumes "playerStates s g = Some r" and "players s g = Some p"
    and "previousTracks (store s r) = []"
  shows "handlePrevious g env s = (NoPreviousTracks, s)"
  using assms by (simp add: handlePrevious_def)

theorem previous_empty_history_witness:
  "playerStates started ''guild-1'' = Some 0 \<and> players started ''guild-1'' = Some 0 \<and>
   previousTracks (store started 0) = [] \<and>
   handlePrevious ''guild-1'' (envOk 2000) started = (NoPreviousTracks, started)"
proof -
  have a: "playerStates started ''guild-1'' = Some 0"
    by (simp add: service_defs sample_defs)
  have b: "players started ''guild-1'' = Some 0"
    by (simp add: service_defs sample_defs)
  have c: "previousTracks (store started 0) = []"
    by (simp add: service_defs sample_defs)
  show ?thesis using a b c previous_empty_history [OF a b c] by simp
qed

text \<open>
  C10. A click on "previous" that succeeds while a track is current: the guild has a
  player and a state whose message belongs to the guild, the history ends with \<open>h\<close>,
  and the track start procedure goes through. Afterwards the track that was current is
  the head of the queue and also the newest entry of the history, and the track made from
  \<open>h\<close> is the current one.
\<close>

theorem previous_requeues_current:
  assumes "playerStates s g = Some r" and "players s g = Some p"
    and "previousTracks (store s r) = hs @ [h]" and "length (previousTracks (store s r)) \<le> 10"
    and "currentTrack (store s r) = Some cur"
    and "embedMessage (store s r) = Some m" and "msg_guild m = Some g" and "g \<noteq> []"
    and "feedback env = Resolves b" and "streamUrl env = Resolves (Some url)" and "url \<noteq> []"
    and "messageEdit env = Resolves ()"
  shows "fst (handlePrevious g env s) = PlayingPrevious \<and>
         trackQueue (store (snd (handlePrevious g env s)) r) = asYandexTrack cur # trackQueue (store s r) \<and>
         previousTracks (store (snd (handlePrevious g env s)) r) = hs @ [asYandexTrack cur] \<and>
         currentTrack (store (snd (handlePrevious g env s)) r) = Some (trackToTrackInfo s h) \<and>
         transport (snd (handlePrevious g env s)) = transport s @ [Play p url]"
proof -
  define s2 where "s2 = modify r (\<lambda>ps. ps\<lparr>trackQueue := asYandexTrack cur # trackQueue ps\<rparr>)
                          (modify r (\<lambda>ps. ps\<lparr>previousTracks := butlast (previousTracks ps)\<rparr>) s)"
  have hp: "handlePrevious g env s =
              (PlayingPrevious, snd (playTrack p (trackToTrackInfo s h) (accessToken (store s r))
                 (stationId (store s r)) (Some m) env s2))"
    using assms(1-3,5,6) by (simp add: handlePrevious_def s2_def modify_def Let_def)
  have g: "truthyGuild (Some m) = Some g"
    using assms(7,8) by (simp add: truthyGuild_def rawGuild_def)
  have reg: "playerStates s2 g = Some r"
    using assms(1) by (simp add: s2_def modify_def)
  have st: "store s2 r = (store s r)\<lparr>previousTracks := hs, trackQueue := asYandexTrack cur # trackQueue (store s r)\<rparr>"
    using assms(3) by (simp add: s2_def modify_def)
  have tr: "transport s2 = transport s"
    by (simp add: s2_def modify_def)
  have len: "length hs < 10" using assms(3,4) by simp
  note pt = playTrack_registered [OF assms(9-12) g reg, of p "trackToTrackInfo s h"
              "accessToken (store s r)" "stationId (store s r)"]
  show ?thesis
    using len assms(5) by (simp add: hp pt st tr playTrack_started [OF assms(9-12)] markStarted_def pushHistory_def)
qed

theorem previous_requeues_current_witness:
  "playerStates advanced ''guild-1'' = Some 0 \<and> players advanced ''guild-1'' = Some 0 \<and>
   previousTracks (store advanced 0) = [] @ [track ''C''] \<and>
   currentTrack (store advanced 0) = Some (sampleConv (track ''A'')) \<and>
   trackQueue (store advanced 0) = [track ''B''] \<and>
   trackQueue (store (snd (handlePrevious ''guild-1'' (envOk 21000) advanced)) 0) = [track ''A'', track ''B''] \<and>
   previousTracks (store (snd (handlePrevious ''guild-1'' (envOk 21000) advanced)) 0) = [track ''A''] \<and>
   currentTrack (store (snd (handlePrevious ''guild-1'' (envOk 21000) advanced)) 0) = Some (sampleConv (track ''C''))"
proof -
  have a: "playerStates advanced ''guild-1'' = Some 0" and b: "players advanced ''guild-1'' = Some 0"
    and c: "previousTracks (store advanced 0) = [] @ [track ''C'']"
    and d: "length (previousTracks (store advanced 0)) \<le> 10"
    and e: "currentTrack (store advanced 0) = Some (sampleConv (track ''A''))"
    and f: "embedMessage (store advanced 0) = Some msgA"
    and q: "trackQueue (store advanced 0) = [track ''B'']"
    and cv: "trackToTrackInfo advanced = sampleConv"
    by (simp_all add: service_defs sample_defs advanced_def)
  have g: "msg_guild msgA = Some ''guild-1''" and h: "''guild-1'' \<noteq> []"
    by (simp_all add: msgA_def)
  have i: "feedback (envOk 21000) = Resolves True" and j: "streamUrl (envOk 21000) = Resolves (Some ''url'')"
    and k: "''url'' \<noteq> []" and l: "messageEdit (envOk 21000) = Resolves ()"
    by (simp_all add: envOk_def)
  have m: "asYandexTrack (sampleConv (track ''A'')) = track ''A''"
    by (simp add: asYandexTrack_def sampleConv_def track_def)
  show ?thesis
    using previous_requeues_current [OF a b c d e f g h i j k l] a b c e q cv m by simp
qed

subsection \<open>The idle and error listeners\<close>

text \<open>
  C1, as the source has it. The idle listener first returns when \<^verbatim>\<open>isLoadingTrack\<close>
  is set. When it is not set, a track is current, it has played for less than 10000 ms
  and fewer than three retries are counted, then the listener adds one to
  \<open>retryCount\<close>, leaves the current track, the queue and the history as they are, calls
  nothing on the player and sets one timer, due 3000 ms later. The timer does not expire
  before that; when it expires, being the first one due, the track start procedure runs
  on the same track.
\<close>

theorem idle_retries_current:
  assumes "listeners s p = Some c" and "playerStates s (cl_guildId c) = Some r"
    and "\<not> loading s (cl_loading c)" and "currentTrack (store s r) = Some t"
    and "playTime env (store s r) < 10000" and "retryCount (store s r) < 3"
  shows "retryCount (store (emitIdle p env s) r) = retryCount (store s r) + 1 \<and>
         currentTrack (store (emitIdle p env s) r) = Some t \<and>
         trackQueue (store (emitIdle p env s) r) = trackQueue (store s r) \<and>
         previousTracks (store (emitIdle p env s) r) = previousTracks (store s r) \<and>
         transport (emitIdle p env s) = transport s \<and>
         timers (emitIdle p env s) = timers s @ [(now env + 3000, IdleRetry c r)] \<and>
         (now env' < now env + 3000 \<longrightarrow>
            fire (length (timers s)) env' (emitIdle p env s) = emitIdle p env s) \<and>
         (now env + 3000 \<le> now env' \<and> list_all (\<lambda>x. now env + 3000 < fst x) (timers s) \<longrightarrow>
            fire (length (timers s)) env' (emitIdle p env s) =
              snd (playTrack (cl_player c) t (cl_accessToken c) (cl_stationId c)
                     (Some (cl_embedMessage c)) env' ((emitIdle p env s)\<lparr>timers := timers s\<rparr>)))"
proof -
  have e: "emitIdle p env s = retryBranch c r env s"
    using assms by (simp add: emitIdle_def onIdle_def)
  show ?thesis
    using assms(4) by (simp add: e retryBranch_def Let_def fire_def expiring_def)
qed

theorem idle_retries_current_witness:
  "listeners started 0 = Some clA \<and> playerStates started (cl_guildId clA) = Some 0 \<and>
   \<not> loading started (cl_loading clA) \<and>
   currentTrack (store started 0) = Some (sampleConv (track ''C'')) \<and>
   playTime (envOk 1100) (store started 0) < 10000 \<and> retryCount (store started 0) < 3 \<and>
   retryCount (store (emitIdle 0 (envOk 1100) started) 0) = 1 \<and>
   timers (emitIdle 0 (envOk 1100) started) = [(4100, IdleRetry clA 0)] \<and>
   fire 0 (envOk 4000) (emitIdle 0 (envOk 1100) started) = emitIdle 0 (envOk 1100) started \<and>
   transport (fire 0 (envOk 4100) (emitIdle 0 (envOk 1100) started))
     = transport started @ [Play 0 ''url'']"
proof -
  have a: "listeners started 0 = Some clA" and b: "playerStates started (cl_guildId clA) = Some 0"
    and c: "\<not> loading started (cl_loading clA)"
    and d: "currentTrack (store started 0) = Some (sampleConv (track ''C''))"
    and e: "playTime (envOk 1100) (store started 0) < 10000"
    and f: "retryCount (store started 0) < 3"
    and g: "retryCount (store started 0) = 0" and h: "timers started = []"
    by (simp_all add: service_defs sample_defs)
  have i: "feedback (envOk 4100) = Resolves True" and j: "streamUrl (envOk 4100) = Resolves (Some ''url'')"
    and k: "''url'' \<noteq> []" and l: "messageEdit (envOk 4100) = Resolves ()"
    by (simp_all add: envOk_def)
  have n: "now (envOk 1100) = 1100" "now (envOk 4100) = 4100" "now (envOk 4000) = 4000"
    by (simp_all add: envOk_def)
  show ?thesis
    using idle_retries_current [OF a b c d e f, of "envOk 4100"]
      idle_retries_current [OF a b c d e f, of "envOk 4000"] a b c d e f g h n
      playTrack_started(2) [OF i j k l]
    by (simp add: clA_def)
qed

text \<open>
  C1 as stated fails while an advance is in flight: in the state below C has been playing
  for 100 ms and no retry is counted, but the re-emit timer of a failed start is pending
  and \<^verbatim>\<open>isLoadingTrack\<close> is set, so the idle event counts no retry and sets no timer.
\<close>

theorem idle_while_loading_counterexample:
  "listeners waiting 0 = Some clA \<and> playerStates waiting ''guild-1'' = Some 0 \<and>
   currentTrack (store waiting 0) = Some (sampleConv (track ''C'')) \<and>
   trackStartTime (store waiting 0) = Some 40100 \<and>
   playTime (envOk 40200) (store waiting 0) = 100 \<and>
   retryCount (store waiting 0) = 0 \<and>
   loading waiting 1 \<and>
   retryCount (store (step (EvIdle 0) (envOk 40200) waiting) 0) = 0 \<and>
   timers (step (EvIdle 0) (envOk 40200) waiting) = timers waiting \<and>
   timers waiting = [(43000, Reemit clA)]"
  by (simp add: service_defs sample_defs waiting_def)




text \<open>
  C3, as the source has it. An idle event that arrives while \<^verbatim>\<open>isLoadingTrack\<close> is
  set changes nothing. The error listener does not read the flag: whenever the guild has
  a state with a current track, it shows the playback problem and sets a retry timer of
  3000 ms; the event itself changes no state object and calls nothing on the player.
\<close>

theorem idle_ignored_error_not_gated:
  "(listeners s p = Some c \<and> loading s (cl_loading c) \<longrightarrow> emitIdle p env s = s) \<and>
   (listeners s p = Some c \<and> playerStates s (cl_guildId c) = Some r \<and>
    currentTrack (store s r) = Some t \<longrightarrow>
      emitError p env s =
        s\<lparr>timers := timers s @ [(now env + 3000, ErrorRetry c r)],
          presentation := presentation s @
             [(msg_id (cl_embedMessage c), PlaybackProblem (ti_title t))]\<rparr>)"
  by (simp add: emitIdle_def onIdle_def emitError_def onError_def schedule_def notify_def
        split: option.splits)

theorem idle_ignored_error_not_gated_witness:
  "listeners stalled 0 = Some clA \<and> loading stalled (cl_loading clA) \<and>
   playerStates stalled (cl_guildId clA) = Some 0 \<and>
   currentTrack (store stalled 0) = Some (sampleConv (track ''C'')) \<and>
   emitIdle 0 (envOk 20100) stalled = stalled \<and>
   timers (emitError 0 (envOk 20100) stalled) = timers stalled @ [(23100, ErrorRetry clA 0)]"
proof -
  have a: "listeners stalled 0 = Some clA" and b: "loading stalled (cl_loading clA)"
    and c: "playerStates stalled (cl_guildId clA) = Some 0"
    and d: "currentTrack (store stalled 0) = Some (sampleConv (track ''C''))"
    by (simp_all add: service_defs sample_defs stalled_def)
  have n: "now (envOk 20100) = 20100"
    by (simp add: envOk_def)
  show ?thesis
    using a b c d n
      idle_ignored_error_not_gated [of stalled 0 clA "envOk 20100" 0 "sampleConv (track ''C'')"]
    by simp
qed

text \<open>
  C3 as stated fails for error events: with \<^verbatim>\<open>isLoadingTrack\<close> set, an error event
  at 20100 sets a retry timer. The re-emit timer expires first, at 23000, and the advance
  it starts fails again, so the flag is set again; the retry timer expires at 23100 and
  the track is given to the player while the flag is set.
\<close>

theorem error_while_loading_counterexample:
  "loading stalled 1 \<and>
   timers stalled = [(23000, Reemit clA)] \<and>
   timers (step (EvError 0) (envOk 20100) stalled)
     = [(23000, Reemit clA), (23100, ErrorRetry clA 0)] \<and>
   loading (steps [(EvError 0, envOk 20100), (EvTimeout 0, envNoUrl 23000)] stalled) 1 \<and>
   timers (steps [(EvError 0, envOk 20100), (EvTimeout 0, envNoUrl 23000)] stalled)
     = [(23100, ErrorRetry clA 0), (26000, Reemit clA)] \<and>
   loading (steps [(EvError 0, envOk 20100), (EvTimeout 0, envNoUrl 23000),
                   (EvTimeout 0, envOk 23100)] stalled) 1 \<and>
   transport (steps [(EvError 0, envOk 20100), (EvTimeout 0, envNoUrl 23000),
                     (EvTimeout 0, envOk 23100)] stalled)
     = transport stalled @ [Play 0 ''url'']"
  by (simp add: service_defs sample_defs stalled_def)

subsection \<open>The stop button\<close>

lemma handleStop_effect:
  assumes "players s g = Some p" and "connections s g = Some cn" and "playerStates s g = Some r"
  shows "timers (snd (handleStop g env s)) = timers s"
    and "listeners (snd (handleStop g env s)) = listeners s"
    and "store (snd (handleStop g env s)) = store s"
    and "players (snd (handleStop g env s)) = (players s)(g := None)"
    and "connections (snd (handleStop g env s)) = (connections s)(g := None)"
    and "playerStates (snd (handleStop g env s)) = (playerStates s)(g := None)"
    and "currentResources (snd (handleStop g env s)) = (currentResources s)(g := None)"
    and "transport (snd (handleStop g env s)) = transport s @ [Stop p, Destroy cn]"
  using assms
  by (simp_all add: handleStop_def Let_def split: option.splits outcome.splits)

text \<open>
  C4, as the source has it. \<open>handleStop\<close> stops the player, destroys the connection
  and deletes the guild's entries from the four maps; the pending timers stay pending.
  When a re-emit timer of the guild expires after that, it clears the flag and the idle
  listener finds no state: nothing else happens. When a retry timer of the idle listener
  expires after that, no state object changes and the guild stays without a state.
\<close>

theorem stop_cancels_no_timer:
  assumes "players s g = Some p" and "connections s g = Some cn" and "playerStates s g = Some r"
    and "listeners s (cl_player c) = Some c'" and "cl_guildId c' = g"
    and "msg_guild (cl_embedMessage c) = Some g"
  shows "timers (snd (handleStop g env s)) = timers s \<and>
         transport (snd (handleStop g env s)) = transport s @ [Stop p, Destroy cn] \<and>
         players (snd (handleStop g env s)) g = None \<and>
         connections (snd (handleStop g env s)) g = None \<and>
         playerStates (snd (handleStop g env s)) g = None \<and>
         currentResources (snd (handleStop g env s)) g = None \<and>
         run (Reemit c) env' (snd (handleStop g env s)) = setLoading c False (snd (handleStop g env s)) \<and>
         store (run (IdleRetry c r') env' (snd (handleStop g env s))) = store s \<and>
         playerStates (run (IdleRetry c r') env' (snd (handleStop g env s))) g = None"
proof -
  note eff = handleStop_effect [OF assms(1-3), of env]
  have raw: "rawGuild (Some (cl_embedMessage c)) = Some g"
    using assms(6) by (simp add: rawGuild_def)
  have gone: "playerStates (snd (handleStop g env s)) g = None"
    by (simp add: eff)
  have re: "run (Reemit c) env' (snd (handleStop g env s)) = setLoading c False (snd (handleStop g env s))"
    using assms(4,5) by (simp add: reemit_def emitIdle_def onIdle_def eff)
  have idle: "store (run (IdleRetry c r') env' (snd (handleStop g env s))) = store s \<and>
         playerStates (run (IdleRetry c r') env' (snd (handleStop g env s))) g = None"
    by (simp add: playTrack_unregistered [OF raw gone] eff split: option.splits)
  show ?thesis using re idle by (simp add: eff)
qed

theorem stop_cancels_no_timer_witness:
  "players stalled ''guild-1'' = Some 0 \<and> connections stalled ''guild-1'' = Some 0 \<and>
   playerStates stalled ''guild-1'' = Some 0 \<and> listeners stalled (cl_player clA) = Some clA \<and>
   timers stalled = [(23000, Reemit clA)] \<and>
   timers (snd (handleStop ''guild-1'' (envOk 20500) stalled)) = [(23000, Reemit clA)] \<and>
   playerStates (snd (handleStop ''guild-1'' (envOk 20500) stalled)) ''guild-1'' = None \<and>
   run (Reemit clA) (envOk 23000) (snd (handleStop ''guild-1'' (envOk 20500) stalled))
     = setLoading clA False (snd (handleStop ''guild-1'' (envOk 20500) stalled))"
proof -
  have a: "players stalled ''guild-1'' = Some 0" and b: "connections stalled ''guild-1'' = Some 0"
    and c: "playerStates stalled ''guild-1'' = Some 0"
    and d: "listeners stalled (cl_player clA) = Some clA"
    and t: "timers stalled = [(23000, Reemit clA)]"
    by (simp_all add: service_defs sample_defs stalled_def)
  have e: "cl_guildId clA = ''guild-1''" and f: "msg_guild (cl_embedMessage clA) = Some ''guild-1''"
    by (simp_all add: clA_def msgA_def)
  show ?thesis
    using stop_cancels_no_timer [OF a b c d e f, of "envOk 20500" "envOk 23000"] a b c d t
    by simp
qed

text \<open>
  C4 as stated fails: the retry timer set before the click on "stop" is still pending
  after it, and when it expires the player is given the track again and the guild gets a
  resource entry back.
\<close>

theorem stop_then_timer_counterexample:
  "timers retrying = [(4100, IdleRetry clA 0)] \<and>
   fst (collect ''guild-1'' ''stop'' (envOk 1200) retrying) = Some StoppedReply \<and>
   timers stopped = [(4100, IdleRetry clA 0)] \<and>
   playerStates stopped ''guild-1'' = None \<and> currentResources stopped ''guild-1'' = None \<and>
   transport stopped = [Subscribe 0 0, Play 0 ''url'', Stop 0, Destroy 0] \<and>
   transport (step (EvTimeout 0) (envOk 4100) stopped)
     = [Subscribe 0 0, Play 0 ''url'', Stop 0, Destroy 0, Play 0 ''url''] \<and>
   currentResources (step (EvTimeout 0) (envOk 4100) stopped) ''guild-1'' = Some ''url''"
  by (simp add: service_defs sample_defs retrying_def stopped_def)

subsection \<open>The history holds at most ten tracks\<close>

text \<open>
  Every operation of the service keeps every state object's history at ten entries or
  fewer: only \<open>playTrack\<close> appends to it, after cutting it to nine when it holds ten,
  and only \<open>handlePrevious\<close> removes from it.
\<close>

lemma bounded_at: "historyBounded s \<Longrightarrow> length (previousTracks (store s r)) \<le> 10"
  by (simp add: historyBounded_def)

lemma pushHistory_bounded:
  "length (previousTracks ps) \<le> 10 \<Longrightarrow> length (previousTracks (pushHistory ps)) \<le> 10"
  by (simp add: pushHistory_def split: option.splits)

lemma playTrack_history:
  "previousTracks (store (snd (playTrack p t token station m env s)) r) = previousTracks (store s r) \<or>
   previousTracks (store (snd (playTrack p t token station m env s)) r)
     = previousTracks (pushHistory (store s r))"
  by (simp add: playTrack_def Let_def playTrackFinish_store playTrackCatch_def markStarted_def
        split: option.splits outcome.splits)

lemma playTrack_bounded:
  assumes "historyBounded s"
  shows "historyBounded (snd (playTrack p t token station m env s))"
  unfolding historyBounded_def
proof
  fix r
  from assms have "length (previousTracks (store s r)) \<le> 10" by (rule bounded_at)
  with playTrack_history [of p t token station m env s r] pushHistory_bounded [of "store s r"]
  show "length (previousTracks (store (snd (playTrack p t token station m env s)) r)) \<le> 10"
    by auto
qed

lemma createPlayer_bounded:
  "historyBounded s \<Longrightarrow> historyBounded (snd (createPlayer options joined ready sent s))"
  by (simp add: createPlayer_def Let_def historyBounded_def initialState_def split: outcome.splits)

lemma setupInfinitePlayback_bounded:
  "historyBounded s \<Longrightarrow> historyBounded (setupInfinitePlayback p token station m initialTracks s)"
  by (simp add: setupInfinitePlayback_def Let_def historyBounded_def split: option.splits)

lemma loadMoreTracks_bounded:
  "historyBounded s \<Longrightarrow> historyBounded (snd (loadMoreTracks c env s))"
  by (simp add: loadMoreTracks_def historyBounded_def split: option.splits outcome.splits)

lemma onError_bounded: "historyBounded s \<Longrightarrow> historyBounded (onError c env s)"
  by (simp add: onError_def historyBounded_def split: option.splits)

lemma retryBranch_bounded: "historyBounded s \<Longrightarrow> historyBounded (retryBranch c r env s)"
  by (simp add: retryBranch_def Let_def historyBounded_def split: option.splits)

lemma advanceBranch_bounded:
  assumes "historyBounded s"
  shows "historyBounded (advanceBranch c r env s)"
proof -
  have a: "historyBounded (setLoading c True s)"
    using assms by (simp add: historyBounded_def)
  have b: "\<And>rest. historyBounded (modify r (\<lambda>ps. ps\<lparr>trackQueue := rest\<rparr>) (setLoading c True s))"
    using assms by (simp add: historyBounded_def)
  have c: "\<And>s' d cb. historyBounded s' \<Longrightarrow> historyBounded (schedule d cb env s')"
    by (simp add: historyBounded_def)
  have d: "\<And>s' x. historyBounded s' \<Longrightarrow> historyBounded (setLoading c x s')"
    by (simp add: historyBounded_def)
  show ?thesis
    unfolding advanceBranch_def Let_def
    by (auto split: list.splits intro!: c d playTrack_bounded a b)
qed

lemma refillBranch_bounded:
  assumes "historyBounded s"
  shows "historyBounded (refillBranch c env s)"
proof -
  have "historyBounded (setLoading c True s)"
    using assms by (simp add: historyBounded_def)
  then have "historyBounded (snd (loadMoreTracks c env (setLoading c True s)))"
    by (rule loadMoreTracks_bounded)
  then show ?thesis
    by (simp add: refillBranch_def Let_def historyBounded_def)
qed

lemma onIdle_bounded: "historyBounded s \<Longrightarrow> historyBounded (onIdle c env s)"
  by (simp add: onIdle_def retryBranch_bounded advanceBranch_bounded refillBranch_bounded
        split: option.splits)

lemma emitIdle_bounded: "historyBounded s \<Longrightarrow> historyBounded (emitIdle p env s)"
  by (simp add: emitIdle_def onIdle_bounded split: option.splits)

lemma emitError_bounded: "historyBounded s \<Longrightarrow> historyBounded (emitError p env s)"
  by (simp add: emitError_def onError_bounded split: option.splits)

lemma reemit_bounded:
  assumes "historyBounded s"
  shows "historyBounded (reemit c env s)"
proof -
  have "historyBounded (setLoading c False s)"
    using assms by (simp add: historyBounded_def)
  then show ?thesis
    by (simp add: reemit_def emitIdle_bounded)
qed

lemma run_bounded:
  assumes "historyBounded s"
  shows "historyBounded (run cb env s)"
proof (cases cb)
  case (ErrorRetry c r)
  have "historyBounded (modify r (\<lambda>ps. ps\<lparr>retryCount := retryCount ps + 1\<rparr>) s)"
    using assms by (simp add: historyBounded_def)
  then show ?thesis
    using assms ErrorRetry by (simp add: reemit_bounded playTrack_bounded split: option.splits)
next
  case (IdleRetry c r)
  then show ?thesis
    using assms by (simp add: playTrack_bounded split: option.splits)
next
  case (Reemit c)
  then show ?thesis
    using assms by (simp add: reemit_bounded)
qed

lemma fire_bounded:
  assumes "historyBounded s"
  shows "historyBounded (fire i env s)"
proof -
  have "historyBounded (s\<lparr>timers := take i (timers s) @ drop (Suc i) (timers s)\<rparr>)"
    using assms by (simp add: historyBounded_def)
  then show ?thesis
    using assms by (simp add: fire_def run_bounded)
qed

lemma handlePrevious_bounded:
  assumes "historyBounded s"
  shows "historyBounded (snd (handlePrevious g env s))"
proof -
  have a: "historyBounded (modify r (\<lambda>ps. ps\<lparr>previousTracks := butlast (previousTracks ps)\<rparr>) s)" for r
  proof -
    have "length (previousTracks (store s r)) \<le> 10"
      using assms by (rule bounded_at)
    then have "length (butlast (previousTracks (store s r))) \<le> 10"
      by simp
    then show ?thesis
      using assms by (simp add: historyBounded_def)
  qed
  have b: "\<And>r x s'. historyBounded s' \<Longrightarrow>
             historyBounded (modify r (\<lambda>ps. ps\<lparr>trackQueue := x # trackQueue ps\<rparr>) s')"
    by (simp add: historyBounded_def)
  show ?thesis
    unfolding handlePrevious_def Let_def
    by (auto simp add: assms split: option.splits intro!: playTrack_bounded a b)
qed

lemma redraw_bounded:
  "historyBounded s \<Longrightarrow> redraw b r env s = Some s' \<Longrightarrow> historyBounded s'"
  by (auto simp add: redraw_def historyBounded_def split: option.splits if_splits outcome.splits)

lemma handlePause_bounded:
  assumes "historyBounded s"
  shows "historyBounded (snd (handlePause g env s))"
proof -
  have a: "\<And>p r. historyBounded (modify r (\<lambda>ps. ps\<lparr>isPlaying := False\<rparr>) (act (Pause p) s))"
    using assms by (simp add: historyBounded_def)
  show ?thesis
    using assms
    by (auto simp add: handlePause_def Let_def a split: option.splits dest: redraw_bounded [OF a])
qed

lemma handlePlay_bounded:
  assumes "historyBounded s"
  shows "historyBounded (snd (handlePlay g env s))"
proof -
  have a: "\<And>p r. historyBounded (modify r (\<lambda>ps. ps\<lparr>isPlaying := True\<rparr>) (act (Unpause p) s))"
    using assms by (simp add: historyBounded_def)
  show ?thesis
    using assms
    by (auto simp add: handlePlay_def Let_def a split: option.splits dest: redraw_bounded [OF a])
qed

lemma handleStop_bounded: "historyBounded s \<Longrightarrow> historyBounded (snd (handleStop g env s))"
  by (simp add: handleStop_def Let_def historyBounded_def split: option.splits outcome.splits)

lemma handleNext_bounded: "historyBounded s \<Longrightarrow> historyBounded (snd (handleNext g env s))"
  by (simp add: handleNext_def emitIdle_bounded split: option.splits)

lemma handleLike_bounded: "historyBounded s \<Longrightarrow> historyBounded (snd (handleLike g env s))"
  by (simp add: handleLike_def split: option.splits outcome.splits)

lemma collect_bounded: "historyBounded s \<Longrightarrow> historyBounded (snd (collect g customId env s))"
  by (simp add: collect_def Let_def handleLike_bounded handlePrevious_bounded handlePause_bounded
        handlePlay_bounded handleStop_bounded handleNext_bounded)

lemma onDisconnected_bounded: "historyBounded s \<Longrightarrow> historyBounded (onDisconnected g c b s)"
  by (simp add: onDisconnected_def historyBounded_def)

lemma step_bounded: "historyBounded s \<Longrightarrow> historyBounded (step e env s)"
  by (cases e)
     (simp_all add: createPlayer_bounded setupInfinitePlayback_bounded playTrack_bounded
        collect_bounded emitIdle_bounded emitError_bounded fire_bounded onDisconnected_bounded)

lemma newService_bounded: "historyBounded (newService conv)"
  by (simp add: newService_def historyBounded_def initialState_def)

lemma reachable_bounded: "reachable s \<Longrightarrow> historyBounded s"
  by (induction rule: reachable.induct) (simp_all add: newService_bounded step_bounded)

lemma steps_reachable: "reachable s \<Longrightarrow> reachable (steps es s)"
  by (induction es arbitrary: s) (simp_all add: reachable.reach_step)

lemma playTrack_pushes:
  assumes "feedback env = Resolves b" and "streamUrl env = Resolves (Some url)" and "url \<noteq> []"
    and "truthyGuild m = Some g" and "playerStates s g = Some r"
  shows "previousTracks (store (snd (playTrack p t token station m env s)) r)
           = previousTracks (pushHistory (store s r))"
  using assms truthy_raw [OF assms(4)]
  by (simp add: playTrack_def Let_def playTrackFinish_store playTrackCatch_def markStarted_def
        split: option.splits outcome.splits)

text \<open>
  C5. In every state the service can reach, the history of every state object has at most
  ten entries. When \<open>playTrack\<close> appends the current track to a history of ten, the
  oldest entry is dropped first: the new history is the tail of the old one followed by
  the track that was current, and it holds ten entries again.
\<close>

theorem history_bounded:
  "(reachable s \<longrightarrow> length (previousTracks (store s r)) \<le> 10) \<and>
   (feedback env = Resolves b \<and> streamUrl env = Resolves (Some url) \<and> url \<noteq> [] \<and>
    truthyGuild m = Some g \<and> playerStates s' g = Some r' \<and>
    currentTrack (store s' r') = Some cur \<and> length (previousTracks (store s' r')) = 10 \<longrightarrow>
      previousTracks (store (snd (playTrack p t token station m env s')) r')
        = tl (previousTracks (store s' r')) @ [asYandexTrack cur] \<and>
      length (previousTracks (store (snd (playTrack p t token station m env s')) r')) = 10)"
  by (auto simp add: playTrack_pushes pushHistory_def dest: reachable_bounded bounded_at)

theorem history_bounded_witness:
  "reachable full \<and> length (previousTracks (store full 0)) \<le> 10 \<and>
   previousTracks (store full 0) = map track [''C'', ''D'', ''E'', ''F'', ''G'', ''H'', ''I'', ''J'', ''K'', ''L''] \<and>
   currentTrack (store full 0) = Some (sampleConv (track ''M'')) \<and>
   previousTracks (store (snd (playTrack 0 (sampleConv (track ''N'')) ''token'' ''station''
                                 (Some msgA) (envOk 3000) full)) 0)
     = map track [''D'', ''E'', ''F'', ''G'', ''H'', ''I'', ''J'', ''K'', ''L'', ''M'']"
proof -
  have r: "reachable full"
    unfolding full_def started_def by (intro steps_reachable reachable.reach_new)
  have a: "previousTracks (store full 0)
             = map track [''C'', ''D'', ''E'', ''F'', ''G'', ''H'', ''I'', ''J'', ''K'', ''L'']"
    and b: "currentTrack (store full 0) = Some (sampleConv (track ''M''))"
    and c: "playerStates full ''guild-1'' = Some 0"
    by (simp_all add: service_defs sample_defs full_def)
  have d: "feedback (envOk 3000) = Resolves True" "streamUrl (envOk 3000) = Resolves (Some ''url'')"
    "''url'' \<noteq> []" "truthyGuild (Some msgA) = Some ''guild-1''"
    by (simp_all add: envOk_def truthyGuild_def rawGuild_def msgA_def)
  have e: "asYandexTrack (sampleConv (track ''M'')) = track ''M''"
    by (simp add: asYandexTrack_def sampleConv_def track_def)
  show ?thesis
    using history_bounded [of full 0 "envOk 3000" True "''url''" "Some msgA" "''guild-1''" full 0
            "sampleConv (track ''M'')" 0 "sampleConv (track ''N'')" "''token''" "''station''"]
          r a b c d e
    by simp
qed

end
